theory Spec2Isabelle
  imports Complex_Main "HOL-Library.Char_ord" "HOL-Library.List_Lexorder"
    "HOL-Library.Code_Target_Nat"
begin

section \<open>Strings as JavaScript uses them\<close>

text \<open>
  Strings are \<open>string\<close> (lists of \<open>char\<close>). The helpers below are the string
  primitives of the host language that the two modules use: \<open>String.prototype.split\<close>
  with a one-character separator, \<open>startsWith\<close>, \<open>endsWith\<close>, \<open>slice(0, -1)\<close>, the
  decimal rendering of a number inside a template literal, and \<open>trim\<close>.
\<close>

fun split_on :: "char \<Rightarrow> string \<Rightarrow> string list" where
  "split_on sep [] = [[]]"
| "split_on sep (c # cs) =
     (if c = sep then [] # split_on sep cs
      else (case split_on sep cs of
              [] \<Rightarrow> [[c]]
            | w # ws \<Rightarrow> (c # w) # ws))"

fun startsWith :: "string \<Rightarrow> string \<Rightarrow> bool" where
  "startsWith s [] = True"
| "startsWith [] (p # ps) = False"
| "startsWith (c # cs) (p # ps) = (c = p \<and> startsWith cs ps)"

definition endsWith :: "string \<Rightarrow> string \<Rightarrow> bool" where
  "endsWith s p = startsWith (rev s) (rev p)"

definition digit_chars :: string where
  "digit_chars = ''0123456789''"

definition is_digit :: "char \<Rightarrow> bool" where
  "is_digit c = (c \<in> set digit_chars)"

definition is_hex_digit :: "char \<Rightarrow> bool" where
  "is_hex_digit c = (c \<in> set ''0123456789ABCDEFabcdef'')"

definition is_ident_char :: "char \<Rightarrow> bool" where
  "is_ident_char c =
     (c \<in> set ''0123456789ABCDEFGHIJKLMNOPQRSTUVWXYZabcdefghijklmnopqrstuvwxyz-'')"

definition is_space :: "char \<Rightarrow> bool" where
  "is_space c = (c \<in> set [CHR '' '', CHR 0x09, CHR 0x0A, CHR 0x0B, CHR 0x0C, CHR 0x0D])"

definition trim :: "string \<Rightarrow> string" where
  "trim s = rev (dropWhile is_space (rev (dropWhile is_space s)))"

definition digit_of_nat :: "nat \<Rightarrow> char" where
  "digit_of_nat d = digit_chars ! d"

fun show_nat :: "nat \<Rightarrow> string" where
  "show_nat n =
     (if n < 10 then [digit_of_nat n]
      else show_nat (n div 10) @ [digit_of_nat (n mod 10)])"

declare show_nat.simps [simp del]

text \<open>The value of a decimal digit is its position in \<open>digit_chars\<close>.\<close>

definition digit_value :: "char \<Rightarrow> nat" where
  "digit_value c = length (takeWhile (\<lambda>d. d \<noteq> c) digit_chars)"

definition read_nat :: "string \<Rightarrow> nat" where
  "read_nat s = foldl (\<lambda>acc c. 10 * acc + digit_value c) 0 s"

section \<open>The semver package: parse and compare\<close>

text \<open>
  \<open>content.ts\<close> and the command-line module both call the \<open>semver\<close> package
  (\<open>semver.parse\<close>, \<open>semver.compare\<close>, the \<open>major\<close> field). The package is a
  dependency, so it is modelled here from its documented strict grammar:
  an optional \<open>v\<close>, three numeric identifiers without leading zeros, an optional
  prerelease \<open>-id.id...\<close> and optional build metadata \<open>+id.id...\<close>; the input is
  trimmed first, inputs longer than 256 characters and numeric components above
  \<open>Number.MAX_SAFE_INTEGER\<close> are rejected. A prerelease identifier made of digits
  becomes a number when it is below \<open>Number.MAX_SAFE_INTEGER\<close> and stays a string
  otherwise; \<open>compareIdentifiers\<close> converts two identifiers that are both made of
  digits with unary \<open>+\<close> and compares the resulting doubles.
\<close>

datatype ident = Num nat | Alnum string

record SemVer =
  major :: nat
  minor :: nat
  patch :: nat
  prerelease :: "ident list"

definition MAX_LENGTH :: nat where
  "MAX_LENGTH = 256"

definition MAX_SAFE_INTEGER :: nat where
  "MAX_SAFE_INTEGER = 9007199254740991"

definition is_numeric_id :: "string \<Rightarrow> bool" where
  "is_numeric_id s =
     (s \<noteq> [] \<and> list_all is_digit s \<and> (s = ''0'' \<or> hd s \<noteq> CHR ''0''))"

definition parse_main_id :: "string \<Rightarrow> nat option" where
  "parse_main_id s =
     (if is_numeric_id s \<and> read_nat s \<le> MAX_SAFE_INTEGER then Some (read_nat s) else None)"

definition parse_pre_id :: "string \<Rightarrow> ident option" where
  "parse_pre_id s =
     (if s = [] \<or> \<not> list_all is_ident_char s then None
      else if list_all is_digit s then
        (if \<not> is_numeric_id s then None
         else if read_nat s < MAX_SAFE_INTEGER then Some (Num (read_nat s))
         else Some (Alnum s))
      else Some (Alnum s))"

definition valid_build_id :: "string \<Rightarrow> bool" where
  "valid_build_id s = (s \<noteq> [] \<and> list_all is_ident_char s)"

fun sequence_opt :: "'a option list \<Rightarrow> 'a list option" where
  "sequence_opt [] = Some []"
| "sequence_opt (None # xs) = None"
| "sequence_opt (Some x # xs) = map_option ((#) x) (sequence_opt xs)"

text \<open>The text before the first occurrence of a separator, and the text after it.\<close>

definition cut_at :: "char \<Rightarrow> string \<Rightarrow> string \<times> string option" where
  "cut_at sep s =
     (let pre = takeWhile (\<lambda>c. c \<noteq> sep) s; rest = dropWhile (\<lambda>c. c \<noteq> sep) s
      in (pre, if rest = [] then None else Some (tl rest)))"

definition parse_prerelease :: "string option \<Rightarrow> ident list option" where
  "parse_prerelease p =
     (case p of None \<Rightarrow> Some []
      | Some s \<Rightarrow> sequence_opt (map parse_pre_id (split_on CHR ''.'' s)))"

definition valid_build :: "string option \<Rightarrow> bool" where
  "valid_build b =
     (case b of None \<Rightarrow> True | Some s \<Rightarrow> list_all valid_build_id (split_on CHR ''.'' s))"

definition new_SemVer :: "string \<Rightarrow> SemVer option" where
  "new_SemVer version =
     (if length version > MAX_LENGTH then None
      else
        let t = trim version;
            t' = (case t of c # cs \<Rightarrow> (if c = CHR ''v'' then cs else t) | [] \<Rightarrow> t);
            (core, build) = cut_at CHR ''+'' t';
            (main, pre) = cut_at CHR ''-'' core
        in (case map parse_main_id (split_on CHR ''.'' main) of
              [Some ma, Some mi, Some pa] \<Rightarrow>
                (case parse_prerelease pre of
                   None \<Rightarrow> None
                 | Some ids \<Rightarrow>
                     if valid_build build
                     then Some \<lparr>major = ma, minor = mi, patch = pa, prerelease = ids\<rparr>
                     else None)
            | _ \<Rightarrow> None))"

text \<open>\<open>semver.parse(version)\<close>: \<open>null\<close> for a missing or invalid version.\<close>

definition semver_parse :: "string option \<Rightarrow> SemVer option" where
  "semver_parse version = (case version of None \<Rightarrow> None | Some v \<Rightarrow> new_SemVer v)"

definition compare_nat :: "nat \<Rightarrow> nat \<Rightarrow> int" where
  "compare_nat a b = (if a = b then 0 else if a < b then - 1 else 1)"

text \<open>
  The double nearest to a natural number, ties to the even significand (the value of
  unary \<open>+\<close> on a string of digits). Below \<open>2 ^ 53\<close> it is the number itself; above,
  the number is rounded to 53 significant bits. A version has at most 256 characters,
  so the numbers met here stay far below the largest double and the result is again a
  natural number.
\<close>

fun bit_length :: "nat \<Rightarrow> nat" where
  "bit_length n = (if n = 0 then 0 else Suc (bit_length (n div 2)))"

declare bit_length.simps [simp del]

definition to_double :: "nat \<Rightarrow> nat" where
  "to_double n =
     (if n < 2 ^ 53 then n
      else
        let e = bit_length n - 53;
            q = n div 2 ^ e;
            r = n mod 2 ^ e;
            half = 2 ^ (e - 1)
        in (if r > half \<or> (r = half \<and> odd q) then q + 1 else q) * 2 ^ e)"

text \<open>\<open>numeric.test(a)\<close> with \<open>/^[0-9]+$/\<close>, and \<open>+a\<close> for such an identifier.\<close>

definition is_numeric :: "ident \<Rightarrow> bool" where
  "is_numeric a = (case a of Num n \<Rightarrow> True | Alnum t \<Rightarrow> t \<noteq> [] \<and> list_all is_digit t)"

definition number_of :: "ident \<Rightarrow> nat" where
  "number_of a = (case a of Num n \<Rightarrow> n | Alnum t \<Rightarrow> to_double (read_nat t))"

definition ident_text :: "ident \<Rightarrow> string" where
  "ident_text a = (case a of Num n \<Rightarrow> show_nat n | Alnum t \<Rightarrow> t)"

definition compareIdentifiers :: "ident \<Rightarrow> ident \<Rightarrow> int" where
  "compareIdentifiers a b =
     (if is_numeric a \<and> is_numeric b then compare_nat (number_of a) (number_of b)
      else if a = b then 0
      else if is_numeric a \<and> \<not> is_numeric b then - 1
      else if is_numeric b \<and> \<not> is_numeric a then 1
      else if ident_text a < ident_text b then - 1
      else 1)"

definition compareMain :: "SemVer \<Rightarrow> SemVer \<Rightarrow> int" where
  "compareMain a b =
     (if compare_nat (major a) (major b) \<noteq> 0 then compare_nat (major a) (major b)
      else if compare_nat (minor a) (minor b) \<noteq> 0 then compare_nat (minor a) (minor b)
      else compare_nat (patch a) (patch b))"

fun comparePreIds :: "ident list \<Rightarrow> ident list \<Rightarrow> int" where
  "comparePreIds [] [] = 0"
| "comparePreIds (a # as) [] = 1"
| "comparePreIds [] (b # bs) = - 1"
| "comparePreIds (a # as) (b # bs) =
     (if a = b then comparePreIds as bs else compareIdentifiers a b)"

definition comparePre :: "SemVer \<Rightarrow> SemVer \<Rightarrow> int" where
  "comparePre a b =
     (if prerelease a \<noteq> [] \<and> prerelease b = [] then - 1
      else if prerelease a = [] \<and> prerelease b \<noteq> [] then 1
      else if prerelease a = [] \<and> prerelease b = [] then 0
      else comparePreIds (prerelease a) (prerelease b))"

text \<open>
  \<open>SemVer.compare\<close> first returns 0 when both versions format to the same text;
  \<open>compareMain\<close> and \<open>comparePre\<close> are 0 on such a pair as well, so the shortcut
  needs no case of its own.
\<close>

definition SemVer_compare :: "SemVer \<Rightarrow> SemVer \<Rightarrow> int" where
  "SemVer_compare a b = (if compareMain a b \<noteq> 0 then compareMain a b else comparePre a b)"

section \<open>The template cache (src/renderer/content.ts)\<close>

subsection \<open>Data and collaborators\<close>

text \<open>
  \<open>EditorValues\<close> maps an editor id to the text of that editor; both are strings.
  A thrown JavaScript error is a value of \<open>error\<close>; a call that may throw or a promise
  that may reject has a result of type \<open>error + 'a\<close>.
\<close>

type_synonym EditorId = string
type_synonym EditorValues = "(EditorId \<times> string) list"

datatype error = Error string | TypeError string

datatype VersionSource = remote | local

record RunnableVersion =
  version :: string
  source :: VersionSource

record Response =
  ok :: bool
  status :: nat
  statusText :: string
  arrayBuffer :: "error + string"

text \<open>
  Everything \<open>content.ts\<close> imports or reads from outside: the two directory constants,
  the version catalog (\<open>getElectronVersions\<close>), the file system, \<open>fetch\<close>,
  \<open>decompress\<close> and \<open>readFiddle\<close>. None of them is part of the module, so each is a
  field of the world a call runs in; a field of type \<open>error option\<close> holds the error
  the step throws, if it throws. \<open>readFiddle\<close> (src/utils/read-fiddle) returns a promise
  of \<open>EditorValues\<close>, which may reject as far as this module can tell.
\<close>

record world =
  TEMPLATES_DIR :: string
  STATIC_TEMPLATE_DIR :: string
  getElectronVersions :: "RunnableVersion list"
  fancyImport_fs :: "error option"
  fs_existsSync :: "string \<Rightarrow> bool"
  fetch :: "string \<Rightarrow> error + Response"
  fs_ensureDir :: "string \<Rightarrow> error option"
  decompress :: "string \<Rightarrow> string \<Rightarrow> error option"
  readFiddle :: "string \<Rightarrow> error + EditorValues"

definition path_join :: "string \<Rightarrow> string \<Rightarrow> string" where
  "path_join dir name = dir @ ''/'' @ name"

subsection \<open>prepareTemplate\<close>

definition template_url :: "string \<Rightarrow> string" where
  "template_url branch =
     ''https://github.com/electron/electron-quick-start/archive/'' @ branch @ ''.zip''"

text \<open>
  The body of the \<open>try\<close> block: \<open>Some err\<close> when a step throws \<open>err\<close>, \<open>None\<close> when
  the block runs to its end. The \<open>console.log\<close> lines are diagnostics and are left out.
\<close>

definition try_download :: "world \<Rightarrow> string \<Rightarrow> string \<Rightarrow> error option" where
  "try_download w branch folder =
     (case fancyImport_fs w of
        Some err \<Rightarrow> Some err
      | None \<Rightarrow>
          if \<not> fs_existsSync w folder then
            (let url = template_url branch in
             case fetch w url of
               Inl err \<Rightarrow> Some err
             | Inr response \<Rightarrow>
                 if \<not> ok response then
                   Some (Error (url @ '' '' @ show_nat (status response) @ '' ''
                                 @ statusText response))
                 else
                   (case arrayBuffer response of
                      Inl err \<Rightarrow> Some err
                    | Inr buffer \<Rightarrow>
                        (case fs_ensureDir w (TEMPLATES_DIR w) of
                           Some err \<Rightarrow> Some err
                         | None \<Rightarrow> decompress w buffer (TEMPLATES_DIR w))))
          else None)"

definition prepareTemplate :: "world \<Rightarrow> string \<Rightarrow> string" where
  "prepareTemplate w branch =
     (let folder = path_join (TEMPLATES_DIR w) (''electron-quick-start-'' @ branch)
      in case try_download w branch folder of
           None \<Rightarrow> folder
         | Some err \<Rightarrow> STATIC_TEMPLATE_DIR w)"

subsection \<open>isReleasedMajor\<close>

text \<open>
  \<open>Array.prototype.sort\<close> with a comparator is a stable sort; \<open>pop\<close> takes the last
  element, or \<open>undefined\<close> from an empty array.
\<close>

fun insort_cmp :: "('a \<Rightarrow> 'a \<Rightarrow> int) \<Rightarrow> 'a \<Rightarrow> 'a list \<Rightarrow> 'a list" where
  "insort_cmp cmp x [] = [x]"
| "insort_cmp cmp x (y # ys) =
     (if cmp x y \<le> 0 then x # y # ys else y # insort_cmp cmp x ys)"

fun sort_cmp :: "('a \<Rightarrow> 'a \<Rightarrow> int) \<Rightarrow> 'a list \<Rightarrow> 'a list" where
  "sort_cmp cmp [] = []"
| "sort_cmp cmp (x # xs) = insort_cmp cmp x (sort_cmp cmp xs)"

definition pop :: "'a list \<Rightarrow> 'a option" where
  "pop xs = (if xs = [] then None else Some (last xs))"

fun somes :: "'a option list \<Rightarrow> 'a list" where
  "somes [] = []"
| "somes (None # xs) = somes xs"
| "somes (Some x # xs) = x # somes xs"

definition remoteReleases :: "world \<Rightarrow> SemVer list" where
  "remoteReleases w =
     somes (map (\<lambda>v. semver_parse (Some (version v)))
              (filter (\<lambda>v. source v = remote) (getElectronVersions w)))"

definition newestRelease :: "world \<Rightarrow> SemVer option" where
  "newestRelease w = pop (sort_cmp SemVer_compare (remoteReleases w))"

definition isReleasedMajor :: "world \<Rightarrow> string option \<Rightarrow> bool" where
  "isReleasedMajor w ver =
     (case semver_parse ver of
        None \<Rightarrow> False
      | Some parsed \<Rightarrow>
          (case newestRelease w of
             None \<Rightarrow> False
           | Some newest \<Rightarrow> major parsed \<le> major newest))"

subsection \<open>getTemplate\<close>

text \<open>
  A promise is identified by a number and carries the result it settles with.
  \<open>templateCache\<close> is the module-level record from branch to promise. The field
  \<open>acquisitions\<close> is a ghost log: one entry, the branch and the strategy, for every
  acquisition that \<open>getTemplate\<close> starts (a call of \<open>prepareTemplate\<close> followed by
  \<open>readFiddle\<close>, or \<open>readFiddle\<close> of the static directory). \<open>editorReads\<close> counts the
  calls of \<open>app.getEditorValues\<close>.

  The body of \<open>getTemplate\<close> has no \<open>await\<close>: the lookup in the cache and the store of
  the new promise run without interruption, so calls that overlap in time act on the
  cache one after the other, each in the world it finds.
\<close>

datatype strategy = Network | Static

datatype promise = Promise (pid: nat) (settled: "error + EditorValues")

record cache_state =
  templateCache :: "string \<rightharpoonup> promise"
  acquisitions :: "(string \<times> strategy) list"
  editorReads :: nat

definition initial_cache :: cache_state where
  "initial_cache = \<lparr>templateCache = Map.empty, acquisitions = [], editorReads = 0\<rparr>"

definition branchOf :: "string option \<Rightarrow> string" where
  "branchOf ver =
     (case semver_parse ver of
        None \<Rightarrow> ''master''
      | Some parsed \<Rightarrow>
          if major parsed \<noteq> 0 then show_nat (major parsed) @ ''-x-y'' else ''master'')"

definition getTemplate :: "world \<Rightarrow> string option \<Rightarrow> cache_state \<Rightarrow> promise \<times> cache_state" where
  "getTemplate w ver s =
     (let branch = branchOf ver in
      case templateCache s branch of
        Some pending \<Rightarrow> (pending, s)
      | None \<Rightarrow>
          (let n = length (acquisitions s);
               (how, pending) =
                 (if isReleasedMajor w ver
                  then (Network, Promise n (readFiddle w (prepareTemplate w branch)))
                  else (Static, Promise n (readFiddle w (STATIC_TEMPLATE_DIR w))))
           in (pending,
               s\<lparr>templateCache := (templateCache s)(branch \<mapsto> pending),
                 acquisitions := acquisitions s @ [(branch, how)]\<rparr>)))"

text \<open>\<open>getContent\<close>: the template's text for one editor (\<open>undefined\<close> is \<open>None\<close>).\<close>

definition getContent ::
  "world \<Rightarrow> EditorId \<Rightarrow> string option \<Rightarrow> cache_state \<Rightarrow> (error + string option) \<times> cache_state" where
  "getContent w name ver s =
     (let (pending, s') = getTemplate w ver s in
      (case settled pending of
         Inl err \<Rightarrow> (Inl err, s')
       | Inr values \<Rightarrow> (Inr (map_of values name), s')))"

text \<open>
  \<open>window.ElectronFiddle\<close> and its \<open>app\<close> field (src/ambient.d.ts); of the application
  only \<open>getEditorValues\<close> is used, whose promise may reject.
\<close>

record App =
  getEditorValues :: "error + EditorValues"

record ElectronFiddle =
  app :: "App option"

record Window =
  window_ElectronFiddle :: "ElectronFiddle option"

definition isContentUnchanged ::
  "Window \<Rightarrow> world \<Rightarrow> EditorId \<Rightarrow> cache_state \<Rightarrow> (error + bool) \<times> cache_state" where
  "isContentUnchanged window w name s =
     (case window_ElectronFiddle window of
        None \<Rightarrow> (Inr False, s)
      | Some fiddle \<Rightarrow>
          (case app fiddle of
             None \<Rightarrow> (Inr False, s)
           | Some a \<Rightarrow>
               (let s1 = s\<lparr>editorReads := Suc (editorReads s)\<rparr> in
                case getEditorValues a of
                  Inl err \<Rightarrow> (Inl err, s1)
                | Inr values \<Rightarrow>
                    (case getContent w name None s1 of
                       (Inl err, s2) \<Rightarrow> (Inl err, s2)
                     | (Inr content, s2) \<Rightarrow> (Inr (map_of values name = content), s2)))))"

text \<open>A run of calls of \<open>getTemplate\<close>, each in its own world, in the order they start.\<close>

fun getTemplates ::
  "(world \<times> string option) list \<Rightarrow> cache_state \<Rightarrow> promise list \<times> cache_state" where
  "getTemplates [] s = ([], s)"
| "getTemplates ((w, ver) # calls) s =
     (let (p, s') = getTemplate w ver s;
          (ps, s'') = getTemplates calls s'
      in (p # ps, s''))"

section \<open>The command line (src/unnamed/part_000)\<close>

subsection \<open>Messages, listeners and the state of the main process\<close>

text \<open>
  The module talks to the rest of the application through \<open>ipcMainManager\<close>
  (\<open>send\<close>, \<open>on\<close>, \<open>once\<close>), prints with \<open>console\<close> and ends the process with
  \<open>app.exit\<close>. The state below records the requests sent, the listeners registered,
  the console lines and the exit code, if the process has exited. The types of
  src/interfaces and src/ipc-events are not among the sources; the constructors are
  the names the module uses.
\<close>

datatype ElectronReleaseChannel = beta | nightly

definition channel_text :: "ElectronReleaseChannel \<Rightarrow> string" where
  "channel_text c = (case c of beta \<Rightarrow> ''Beta'' | nightly \<Rightarrow> ''Nightly'')"

text \<open>
  Modelled from the spec: RunResult is "an enumeration {success, failure,
  ...-other-terminal-outcomes}"; the enumeration of src/interfaces is not among the
  sources, and the module names only \<open>RunResult.SUCCESS\<close>.
\<close>

datatype RunResult = SUCCESS | FAILURE | OtherResult string

definition RunResult_text :: "RunResult \<Rightarrow> string" where
  "RunResult_text r =
     (case r of SUCCESS \<Rightarrow> ''success'' | FAILURE \<Rightarrow> ''failure'' | OtherResult t \<Rightarrow> t)"

text \<open>The two versions a bisect found; a field is \<open>None\<close> when it is unset.\<close>

record BisectResult =
  goodVersion :: "string option"
  badVersion :: "string option"

record OutputEntry =
  timestamp :: nat
  text_of :: string

record GistInfo =
  id_gist :: string
  confirmed :: bool

datatype IpcEvents =
  FS_OPEN_FIDDLE | SET_VERSION | SHOW_CHANNELS | HIDE_CHANNELS | OUTPUT_ENTRY
  | BISECT_DONE | FIDDLE_BISECT | COMMAND_DONE | LOAD_GIST_REQUEST | RUN_DONE | FIDDLE_RUN

datatype ipc_arg =
  Undefined | Str string | Channel ElectronReleaseChannel | Gist GistInfo

text \<open>
  The four listener bodies of the module: \<open>onOutputEntry\<close>, the arrow function of
  \<open>bisect\<close>, the arrow function of \<open>logWhenDone\<close> (closed over \<open>name\<close> and
  \<open>exitWhenDone\<close>) and the arrow function of \<open>test\<close>.
\<close>

datatype listener = OnOutputEntry | BisectDone | LogWhenDone string bool | RunDone

record registration =
  channel :: IpcEvents
  once :: bool
  handler :: listener

datatype ipc_message =
  OutputEntryMsg OutputEntry
  | BisectDoneMsg BisectResult
  | CommandDoneMsg bool
  | RunDoneMsg RunResult

definition channel_of :: "ipc_message \<Rightarrow> IpcEvents" where
  "channel_of m =
     (case m of
        OutputEntryMsg e \<Rightarrow> OUTPUT_ENTRY
      | BisectDoneMsg r \<Rightarrow> BISECT_DONE
      | CommandDoneMsg b \<Rightarrow> COMMAND_DONE
      | RunDoneMsg r \<Rightarrow> RUN_DONE)"

datatype console_line = Log string | Warn string

record main_state =
  sent :: "(IpcEvents \<times> ipc_arg list) list"
  listeners :: "registration list"
  console :: "console_line list"
  exitCode :: "nat option"

definition initial_main :: main_state where
  "initial_main = \<lparr>sent = [], listeners = [], console = [], exitCode = None\<rparr>"

text \<open>
  What the module takes from outside: \<open>normalizeVersion\<close> (src/utils/normalize-version,
  not among the sources), \<open>fs.existsSync\<close> and the locale's time format.
\<close>

record host =
  normalizeVersion :: "string \<Rightarrow> string"
  existsSync :: "string \<Rightarrow> bool"
  toLocaleTimeString :: "nat \<Rightarrow> string"

record OptionValues =
  fiddle :: "string option"
  version_opt :: "string option"
  betas :: "bool option"
  nightlies :: "bool option"

definition send :: "IpcEvents \<Rightarrow> ipc_arg list \<Rightarrow> main_state \<Rightarrow> main_state" where
  "send ch args s = s\<lparr>sent := sent s @ [(ch, args)]\<rparr>"

definition on_listener :: "IpcEvents \<Rightarrow> listener \<Rightarrow> main_state \<Rightarrow> main_state" where
  "on_listener ch f s =
     s\<lparr>listeners := listeners s @ [\<lparr>channel = ch, once = False, handler = f\<rparr>]\<rparr>"

definition once_listener :: "IpcEvents \<Rightarrow> listener \<Rightarrow> main_state \<Rightarrow> main_state" where
  "once_listener ch f s =
     s\<lparr>listeners := listeners s @ [\<lparr>channel = ch, once = True, handler = f\<rparr>]\<rparr>"

definition console_log :: "string \<Rightarrow> main_state \<Rightarrow> main_state" where
  "console_log line s = s\<lparr>console := console s @ [Log line]\<rparr>"

definition console_warn :: "string \<Rightarrow> main_state \<Rightarrow> main_state" where
  "console_warn line s = s\<lparr>console := console s @ [Warn line]\<rparr>"

text \<open>\<open>app.exit(code)\<close>: the process ends with the first code it is given.\<close>

definition app_exit :: "nat \<Rightarrow> main_state \<Rightarrow> main_state" where
  "app_exit code s = (if exitCode s = None then s\<lparr>exitCode := Some code\<rparr> else s)"

text \<open>Truthiness of an optional string: \<open>undefined\<close> and the empty string are falsy.\<close>

definition truthy :: "string option \<Rightarrow> bool" where
  "truthy v = (case v of None \<Rightarrow> False | Some t \<Rightarrow> t \<noteq> [])"

text \<open>A value inside a template literal: \<open>undefined\<close> prints as its name.\<close>

definition template_text :: "string option \<Rightarrow> string" where
  "template_text v = (case v of None \<Rightarrow> ''undefined'' | Some t \<Rightarrow> t)"

definition arg_of :: "string option \<Rightarrow> ipc_arg" where
  "arg_of v = (case v of None \<Rightarrow> Undefined | Some t \<Rightarrow> Str t)"

fun join_with :: "string \<Rightarrow> string list \<Rightarrow> string" where
  "join_with sep [] = []"
| "join_with sep [x] = x"
| "join_with sep (x # y # ys) = x @ sep @ join_with sep (y # ys)"

subsection \<open>The option helpers\<close>

definition optFiddle :: "OptionValues \<Rightarrow> main_state \<Rightarrow> main_state" where
  "optFiddle opts s =
     send FS_OPEN_FIDDLE [arg_of (fiddle opts)]
       (console_log (''Loading '' @ template_text (fiddle opts)) s)"

definition optVersion :: "OptionValues \<Rightarrow> main_state \<Rightarrow> main_state" where
  "optVersion opts s =
     (case version_opt opts of
        None \<Rightarrow> s
      | Some v \<Rightarrow>
          if v = [] then s
          else send SET_VERSION [Str v] (console_log (''Setting version '' @ v) s))"

definition optShow :: "OptionValues \<Rightarrow> main_state \<Rightarrow> main_state" where
  "optShow opts s =
     (let channels = (if betas opts = Some True then [beta] else [])
                     @ (if nightlies opts = Some True then [nightly] else [])
      in if length channels > 0
         then send SHOW_CHANNELS (map Channel channels)
                (console_log (''Showing '' @ join_with '', '' (map channel_text channels)) s)
         else s)"

definition optHide :: "OptionValues \<Rightarrow> main_state \<Rightarrow> main_state" where
  "optHide opts s =
     (let channels = (if betas opts = Some False then [beta] else [])
                     @ (if nightlies opts = Some False then [nightly] else [])
      in if length channels > 0
         then send HIDE_CHANNELS (map Channel channels)
                (console_log (''Hiding '' @ join_with '', '' (map channel_text channels)) s)
         else s)"

subsection \<open>Listeners at work\<close>

definition onOutputEntry :: "host \<Rightarrow> OutputEntry \<Rightarrow> main_state \<Rightarrow> main_state" where
  "onOutputEntry h message s =
     console_log (''['' @ toLocaleTimeString h (timestamp message) @ ''] '' @ text_of message) s"

text \<open>
  One listener run on one message. A process that has exited runs nothing. A listener
  handed a message of another channel does nothing (the channels keep them apart).
\<close>

definition run_listener :: "host \<Rightarrow> listener \<Rightarrow> ipc_message \<Rightarrow> main_state \<Rightarrow> main_state" where
  "run_listener h f m s =
     (if exitCode s \<noteq> None then s
      else
        (case (f, m) of
           (OnOutputEntry, OutputEntryMsg message) \<Rightarrow> onOutputEntry h message s
         | (BisectDone, BisectDoneMsg result) \<Rightarrow>
             app_exit (if truthy (goodVersion result) \<and> truthy (badVersion result) then 0 else 1) s
         | (LogWhenDone name exitWhenDone, CommandDoneMsg success) \<Rightarrow>
             (let s1 = console_log (''command '' @ (if success then ''succeeded'' else ''failed'')
                                      @ '': '' @ name) s
              in if exitWhenDone then app_exit (if success then 0 else 1) s1 else s1)
         | (RunDone, RunDoneMsg result) \<Rightarrow>
             app_exit (if result = SUCCESS then 0 else 1) (console_log (RunResult_text result) s)
         | _ \<Rightarrow> s))"

text \<open>
  A message arrives on its channel: the listeners registered for the channel run in
  the order of registration, and those registered with \<open>once\<close> are removed.
\<close>

definition deliver :: "host \<Rightarrow> ipc_message \<Rightarrow> main_state \<Rightarrow> main_state" where
  "deliver h m s =
     (if exitCode s \<noteq> None then s
      else
        (let ch = channel_of m;
             called = filter (\<lambda>r. channel r = ch) (listeners s);
             kept = filter (\<lambda>r. \<not> (channel r = ch \<and> once r)) (listeners s)
         in foldl (\<lambda>st r. run_listener h (handler r) m st) (s\<lparr>listeners := kept\<rparr>) called))"

subsection \<open>The commands\<close>

text \<open>
  \<open>semver.compare(a, b)\<close> on strings builds a \<open>SemVer\<close> from each and throws a
  \<open>TypeError\<close> when one of them is not a version.
\<close>

definition semver_compare :: "string \<Rightarrow> string \<Rightarrow> error + int" where
  "semver_compare a b =
     (case new_SemVer a of
        None \<Rightarrow> Inl (TypeError (''Invalid Version: '' @ a))
      | Some x \<Rightarrow>
          (case new_SemVer b of
             None \<Rightarrow> Inl (TypeError (''Invalid Version: '' @ b))
           | Some y \<Rightarrow> Inr (SemVer_compare x y)))"

text \<open>
  \<open>bisect\<close> returns \<open>Inr\<close> of the new state, or \<open>Inl\<close> of the error thrown by
  \<open>semver.compare\<close> together with the state reached when it was thrown (the option
  helpers have run by then).
\<close>

definition bisect ::
  "host \<Rightarrow> string \<Rightarrow> string \<Rightarrow> OptionValues \<Rightarrow> main_state
     \<Rightarrow> (error \<times> main_state) + main_state" where
  "bisect h good bad opts s =
     (let s1 = optFiddle opts (optShow opts (optHide opts s));
          good1 = normalizeVersion h good;
          bad1 = normalizeVersion h bad
      in case semver_compare good1 bad1 of
           Inl err \<Rightarrow> Inl (err, s1)
         | Inr c \<Rightarrow>
             (let (good2, bad2, s2) =
                    (if c > 0
                     then (bad1, good1,
                           console_warn (''Swapping so that '' @ bad1 @ '' comes before '' @ good1) s1)
                     else (good1, bad1, s1))
              in Inr (send FIDDLE_BISECT [Str good2, Str bad2]
                        (once_listener BISECT_DONE BisectDone
                           (on_listener OUTPUT_ENTRY OnOutputEntry s2)))))"

definition logWhenDone :: "string \<Rightarrow> bool option \<Rightarrow> main_state \<Rightarrow> main_state" where
  "logWhenDone name exitWhenDone s =
     once_listener COMMAND_DONE
       (LogWhenDone name (case exitWhenDone of None \<Rightarrow> False | Some b \<Rightarrow> b)) s"

text \<open>
  \<open>id.match(/[0-9A-Fa-f]{32}/)\<close>: the pattern has no anchors, so it matches when 32
  hexadecimal digits in a row stand anywhere in the text.
\<close>

definition hex_run_at_start :: "nat \<Rightarrow> string \<Rightarrow> bool" where
  "hex_run_at_start n t = (n \<le> length t \<and> list_all is_hex_digit (take n t))"

fun match_gist_pattern :: "string \<Rightarrow> bool" where
  "match_gist_pattern [] = False"
| "match_gist_pattern (c # cs) = (hex_run_at_start 32 (c # cs) \<or> match_gist_pattern cs)"

definition gist_id_of :: "string \<Rightarrow> string option" where
  "gist_id_of src =
     (if startsWith src ''https://gist.github.com''
      then pop (split_on CHR ''/'' (if endsWith src ''/'' then butlast src else src))
      else Some src)"

definition open_cmd :: "host \<Rightarrow> string \<Rightarrow> main_state \<Rightarrow> main_state" where
  "open_cmd h src s =
     (if existsSync h src
      then send FS_OPEN_FIDDLE [Str src]
             (logWhenDone (''open fiddle '' @ [CHR 0x22] @ src @ [CHR 0x22]) None s)
      else
        (case gist_id_of src of
           None \<Rightarrow> s
         | Some i \<Rightarrow>
             if i \<noteq> [] \<and> match_gist_pattern i
             then send LOAD_GIST_REQUEST [Gist \<lparr>id_gist = i, confirmed = True\<rparr>]
                    (logWhenDone (''open gist '' @ [CHR 0x22] @ i @ [CHR 0x22]) None s)
             else s))"

definition test :: "OptionValues \<Rightarrow> main_state \<Rightarrow> main_state" where
  "test opts s =
     send FIDDLE_RUN []
       (once_listener RUN_DONE RunDone
          (on_listener OUTPUT_ENTRY OnOutputEntry (optVersion opts (optFiddle opts s))))"

section \<open>The bisect controller\<close>

text \<open>
  Modelled from the spec: the BisectController of section 4.2. Its code is not among
  the sources (the command line only sends the bisect request and waits for
  \<open>BISECT_DONE\<close>). The spec's words: keep a working range \<open>[good, bad]\<close> over the
  ordered, deduplicated list of known versions between the two bounds; when the range
  has collapsed to two adjacent versions, stop with that pair; otherwise run the fiddle
  once at the index-based midpoint; on success the midpoint is the new \<open>good\<close> bound,
  on failure the new \<open>bad\<close> bound. With identical bounds or no version between them
  the result is returned at once. \<open>run\<close> is the RunnerBridge: whether the run of the
  fiddle at a version succeeds.
\<close>

record 'v bisect_outcome =
  lastGood :: "'v option"
  firstBad :: "'v option"
  runSteps :: nat

definition midpoint :: "nat \<Rightarrow> nat \<Rightarrow> nat" where
  "midpoint good bad = (good + bad) div 2"

definition bisect_step :: "('v \<Rightarrow> bool) \<Rightarrow> 'v list \<Rightarrow> nat \<times> nat \<Rightarrow> nat \<times> nat" where
  "bisect_step run vs bounds =
     (case bounds of (good, bad) \<Rightarrow>
        if run (vs ! midpoint good bad) then (midpoint good bad, bad)
        else (good, midpoint good bad))"

function bisect_loop :: "('v \<Rightarrow> bool) \<Rightarrow> 'v list \<Rightarrow> nat \<times> nat \<Rightarrow> nat \<Rightarrow> (nat \<times> nat) \<times> nat" where
  "bisect_loop run vs bounds steps =
     (if snd bounds \<le> Suc (fst bounds) then (bounds, steps)
      else bisect_loop run vs (bisect_step run vs bounds) (Suc steps))"
  by pat_completeness auto
termination
  by (relation "measure (\<lambda>(run, vs, bounds, steps). snd bounds - fst bounds)")
     (auto simp: bisect_step_def midpoint_def split: prod.splits)

declare bisect_loop.simps [simp del]

definition BisectController_bisect :: "('v \<Rightarrow> bool) \<Rightarrow> 'v list \<Rightarrow> 'v bisect_outcome" where
  "BisectController_bisect run vs =
     (if vs = [] then \<lparr>lastGood = None, firstBad = None, runSteps = 0\<rparr>
      else
        (case bisect_loop run vs (0, length vs - 1) 0 of
           ((good, bad), steps) \<Rightarrow>
             \<lparr>lastGood = Some (vs ! good), firstBad = Some (vs ! bad), runSteps = steps\<rparr>))"

section \<open>Notions used to state the properties\<close>

text \<open>
  The spec's condition for network acquisition, in its own words: the version's major
  is "not newer than the newest remote release", that is, some remote release of the
  catalog parses to a major at least as large.
\<close>

definition major_is_released :: "world \<Rightarrow> string option \<Rightarrow> bool" where
  "major_is_released w ver =
     (case semver_parse ver of
        None \<Rightarrow> False
      | Some parsed \<Rightarrow>
          list_ex (\<lambda>r. source r = remote
                      \<and> (case semver_parse (Some (version r)) of
                            None \<Rightarrow> False
                          | Some release \<Rightarrow> major parsed \<le> major release))
            (getElectronVersions w))"


text \<open>The folder \<open>prepareTemplate\<close> looks for and downloads into.\<close>

definition download_folder :: "world \<Rightarrow> string \<Rightarrow> string" where
  "download_folder w branch = path_join (TEMPLATES_DIR w) (''electron-quick-start-'' @ branch)"

text \<open>
  A failure during network acquisition, as the claim lists them: the file-system
  module cannot be imported, or the folder is not on disk yet and \<open>fetch\<close> fails, the
  response is not ok, its body cannot be read, the templates directory cannot be
  created, or the archive cannot be unpacked.
\<close>

definition acquisition_fails :: "world \<Rightarrow> string \<Rightarrow> bool" where
  "acquisition_fails w branch =
     (fancyImport_fs w \<noteq> None
      \<or> (\<not> fs_existsSync w (download_folder w branch)
         \<and> (case fetch w (template_url branch) of
               Inl err \<Rightarrow> True
             | Inr response \<Rightarrow>
                 \<not> ok response
                 \<or> (case arrayBuffer response of
                       Inl err \<Rightarrow> True
                     | Inr buffer \<Rightarrow>
                         fs_ensureDir w (TEMPLATES_DIR w) \<noteq> None
                         \<or> decompress w buffer (TEMPLATES_DIR w) \<noteq> None))))"

section \<open>Example worlds\<close>

text \<open>A world with two remote releases and one local build, where every step succeeds.\<close>

definition example_world :: world where
  "example_world =
     \<lparr>TEMPLATES_DIR = ''/userData/Templates'',
      STATIC_TEMPLATE_DIR = ''/app/static/electron-quick-start'',
      getElectronVersions =
        [\<lparr>version = ''11.2.0'', source = remote\<rparr>,
         \<lparr>version = ''12.0.0'', source = remote\<rparr>,
         \<lparr>version = ''999.0.0'', source = local\<rparr>],
      fancyImport_fs = None,
      fs_existsSync = (\<lambda>folder. False),
      fetch = (\<lambda>url. Inr \<lparr>ok = True, status = 200, statusText = ''OK'',
                             arrayBuffer = Inr ''zip''\<rparr>),
      fs_ensureDir = (\<lambda>dir. None),
      decompress = (\<lambda>buffer dir. None),
      readFiddle = (\<lambda>folder. Inr [(''main.js'', folder)])\<rparr>"

text \<open>
  A host where exactly \<open>/path/to/fiddle\<close> exists on disk; its \<open>normalizeVersion\<close>
  drops a leading \<open>v\<close>.
\<close>

definition example_host :: host where
  "example_host =
     \<lparr>normalizeVersion = (\<lambda>v. case v of [] \<Rightarrow> [] | c # cs \<Rightarrow> if c = CHR ''v'' then cs else v),
      existsSync = (\<lambda>p. p = ''/path/to/fiddle''),
      toLocaleTimeString = (\<lambda>t. show_nat t)\<rparr>"

definition no_options :: OptionValues where
  "no_options = \<lparr>fiddle = None, version_opt = None, betas = None, nightlies = None\<rparr>"

text \<open>The same world without a network: every \<open>fetch\<close> fails.\<close>

definition offline_world :: world where
  "offline_world = example_world\<lparr>fetch := (\<lambda>url. Inl (Error ''network unreachable''))\<rparr>"

text \<open>
  Two worlds where reading fails: in the first only the static directory can be read
  (a downloaded folder cannot), in the second no directory can.
\<close>

definition unpacked_unreadable_world :: world where
  "unpacked_unreadable_world =
     example_world\<lparr>readFiddle :=
       (\<lambda>folder. if folder = ''/app/static/electron-quick-start''
                  then Inr [(''main.js'', folder)] else Inl (Error ''ENOENT''))\<rparr>"

definition unreadable_world :: world where
  "unreadable_world = example_world\<lparr>readFiddle := (\<lambda>folder. Inl (Error ''unreadable''))\<rparr>"


text \<open>Five known versions, the first two of which run the fiddle successfully.\<close>

definition example_run :: "string \<Rightarrow> bool" where
  "example_run v = (v \<in> set [''10.0.0'', ''10.1.0''])"

definition example_versions :: "string list" where
  "example_versions = [''10.0.0'', ''10.1.0'', ''11.0.0'', ''11.1.0'', ''11.2.0'']"

section \<open>Properties of the template cache\<close>

lemma digit_of_nat_is_digit: "d < 10 \<Longrightarrow> is_digit (digit_of_nat d)"
  unfolding is_digit_def digit_of_nat_def by (rule nth_mem) (simp add: digit_chars_def)

lemma show_nat_digits: "show_nat n \<noteq> [] \<and> list_all is_digit (show_nat n)"
proof (induction n rule: show_nat.induct)
  case (1 n)
  show ?case
  proof (cases "n < 10")
    case True
    then show ?thesis
      by (subst show_nat.simps, subst (2) show_nat.simps) (simp add: digit_of_nat_is_digit)
  next
    case False
    with 1 show ?thesis
      by (subst show_nat.simps, subst (2) show_nat.simps) (simp add: digit_of_nat_is_digit)
  qed
qed

lemma branch_not_master: "show_nat n @ ''-x-y'' \<noteq> ''master''"
proof -
  obtain c cs where *: "show_nat n = c # cs"
    using show_nat_digits[of n] by (cases "show_nat n") auto
  with show_nat_digits[of n] have "is_digit c" by simp
  then have "c \<noteq> CHR ''m''" by (auto simp: is_digit_def digit_chars_def)
  with * show ?thesis by simp
qed

lemma parse_12_0_0:
  "semver_parse (Some ''12.0.0'') = Some \<lparr>major = 12, minor = 0, patch = 0, prerelease = []\<rparr>"
  by code_simp

lemma show_nat_12: "show_nat 12 = ''12''"
  by code_simp

text \<open>
  C4 (as amended). The cache key of a call is \<open>"{major}-x-y"\<close> when the version parses
  and its major is not 0, and \<open>"master"\<close> otherwise: for an absent version, an
  unparseable one, and also for a version of major 0, because the source tests the
  major for truthiness. After the call the cache holds the returned promise under that
  key and every other key is as before. The key is \<open>"master"\<close> exactly when no version
  parses to a major other than 0.
\<close>

theorem getTemplate_cache_key:
  "(let key = (case semver_parse ver of
                 None \<Rightarrow> ''master''
               | Some parsed \<Rightarrow> if major parsed = 0 then ''master''
                                else show_nat (major parsed) @ ''-x-y'');
        (p, s') = getTemplate w ver s
    in templateCache s' key = Some p
       \<and> (\<forall>b. b \<noteq> key \<longrightarrow> templateCache s' b = templateCache s b)
       \<and> (key = ''master'' \<longleftrightarrow>
            (\<forall>parsed. semver_parse ver = Some parsed \<longrightarrow> major parsed = 0)))"
  by (auto simp: Let_def getTemplate_def branchOf_def branch_not_master
           split: option.splits prod.splits if_splits)

theorem getTemplate_cache_key_witness:
  "templateCache (snd (getTemplate example_world (Some ''12.0.0'') initial_cache)) ''12-x-y''
     = Some (fst (getTemplate example_world (Some ''12.0.0'') initial_cache))
   \<and> templateCache (snd (getTemplate example_world (Some ''12.0.0'') initial_cache)) ''master''
     = None"
  using getTemplate_cache_key[of "Some ''12.0.0''" example_world initial_cache]
  by (simp add: parse_12_0_0 show_nat_12 Let_def initial_cache_def split: prod.splits)

text \<open>
  C4 (as stated) fails for a version of major 0: \<open>0.37.0\<close> parses, its major is
  resolvable (it is 0), and the cache key is \<open>"master"\<close>, not \<open>"0-x-y"\<close>.
\<close>

theorem getTemplate_major_zero_counterexample:
  "semver_parse (Some ''0.37.0'')
     = Some \<lparr>major = 0, minor = 37, patch = 0, prerelease = []\<rparr>
   \<and> branchOf (Some ''0.37.0'') = ''master''
   \<and> branchOf (Some ''0.37.0'') \<noteq> show_nat 0 @ ''-x-y''"
  by code_simp

text \<open>
  C10. Without the global application handle (\<open>window.ElectronFiddle\<close> missing, or its
  \<open>app\<close> field missing) \<open>isContentUnchanged\<close> resolves to \<open>false\<close> for every editor
  name, whatever the world and the cache are, and leaves the state as it was: no call
  of \<open>getEditorValues\<close>, no acquisition, no new cache entry, no error.
\<close>

theorem isContentUnchanged_without_app:
  "window_ElectronFiddle window = None
     \<or> (\<exists>fiddle. window_ElectronFiddle window = Some fiddle \<and> app fiddle = None)
   \<Longrightarrow> isContentUnchanged window w name s = (Inr False, s)"
  by (auto simp: isContentUnchanged_def)

theorem isContentUnchanged_without_app_witness:
  "isContentUnchanged \<lparr>window_ElectronFiddle = None\<rparr> example_world ''main.js'' initial_cache
     = (Inr False, initial_cache)
   \<and> isContentUnchanged \<lparr>window_ElectronFiddle = Some \<lparr>app = None\<rparr>\<rparr> example_world
        ''main.js'' initial_cache
     = (Inr False, initial_cache)"
  using isContentUnchanged_without_app[of "\<lparr>window_ElectronFiddle = None\<rparr>"
          example_world "''main.js''" initial_cache]
        isContentUnchanged_without_app[of "\<lparr>window_ElectronFiddle = Some \<lparr>app = None\<rparr>\<rparr>"
          example_world "''main.js''" initial_cache]
  by simp

lemma SemVer_compare_le_major: "SemVer_compare x y \<le> 0 \<Longrightarrow> major x \<le> major y"
  by (auto simp: SemVer_compare_def compareMain_def compare_nat_def split: if_splits)

lemma SemVer_compare_gt_major: "\<not> SemVer_compare x y \<le> 0 \<Longrightarrow> major y \<le> major x"
  by (auto simp: SemVer_compare_def compareMain_def compare_nat_def split: if_splits)

lemma set_insort_cmp: "set (insort_cmp cmp x ys) = insert x (set ys)"
  by (induction ys) auto

lemma set_sort_cmp: "set (sort_cmp cmp xs) = set xs"
  by (induction xs) (auto simp: set_insort_cmp)

lemma sorted_insort_major:
  "sorted (map major ys) \<Longrightarrow> sorted (map major (insort_cmp SemVer_compare x ys))"
proof (induction ys)
  case Nil
  then show ?case by simp
next
  case (Cons y ys)
  show ?case
  proof (cases "SemVer_compare x y \<le> 0")
    case True
    then have "major x \<le> major y" by (rule SemVer_compare_le_major)
    with Cons.prems True show ?thesis by auto
  next
    case False
    then have "major y \<le> major x" by (rule SemVer_compare_gt_major)
    with Cons False show ?thesis by (auto simp: set_insort_cmp)
  qed
qed

lemma sorted_sort_major: "sorted (map major (sort_cmp SemVer_compare xs))"
  by (induction xs) (auto simp: sorted_insort_major)

lemma sorted_last_greatest: "sorted (map f xs) \<Longrightarrow> x \<in> set xs \<Longrightarrow> f x \<le> f (last xs)"
  by (induction xs) (auto split: if_splits)

lemma newestRelease_None: "newestRelease w = None \<longleftrightarrow> remoteReleases w = []"
  using set_sort_cmp[of SemVer_compare "remoteReleases w"]
  by (auto simp: newestRelease_def pop_def)

lemma newestRelease_Some:
  assumes "newestRelease w = Some newest"
  shows "newest \<in> set (remoteReleases w)"
    and "q \<in> set (remoteReleases w) \<Longrightarrow> major q \<le> major newest"
proof -
  let ?xs = "sort_cmp SemVer_compare (remoteReleases w)"
  from assms have ne: "?xs \<noteq> []" and n: "newest = last ?xs"
    by (auto simp: newestRelease_def pop_def split: if_splits)
  from ne have "last ?xs \<in> set ?xs" by (rule last_in_set)
  then show "newest \<in> set (remoteReleases w)" by (simp add: n set_sort_cmp)
  assume "q \<in> set (remoteReleases w)"
  then have "q \<in> set ?xs" by (simp add: set_sort_cmp)
  then show "major q \<le> major newest"
    unfolding n by (rule sorted_last_greatest[OF sorted_sort_major])
qed

lemma set_somes: "set (somes xs) = {x. Some x \<in> set xs}"
  by (induction xs rule: somes.induct) auto

lemma remoteReleases_iff:
  "q \<in> set (remoteReleases w) \<longleftrightarrow>
     (\<exists>r \<in> set (getElectronVersions w). source r = remote \<and> semver_parse (Some (version r)) = Some q)"
  by (force simp: remoteReleases_def set_somes image_iff)

lemma isReleasedMajor_iff: "isReleasedMajor w ver = major_is_released w ver"
proof (cases "semver_parse ver")
  case None
  then show ?thesis by (simp add: isReleasedMajor_def major_is_released_def)
next
  case (Some parsed)
  show ?thesis
  proof (cases "newestRelease w")
    case None
    then have "remoteReleases w = []" by (simp add: newestRelease_None)
    then have "\<And>q. q \<notin> set (remoteReleases w)" by simp
    then have "\<not> major_is_released w ver"
      using remoteReleases_iff[of _ w]
      by (fastforce simp: major_is_released_def Some list_ex_iff split: option.splits)
    with None Some show ?thesis by (simp add: isReleasedMajor_def)
  next
    case newest: (Some newest)
    have a: "newest \<in> set (remoteReleases w)"
      and b: "\<And>q. q \<in> set (remoteReleases w) \<Longrightarrow> major q \<le> major newest"
      using newestRelease_Some[OF newest] by auto
    have "major_is_released w ver \<longleftrightarrow> (\<exists>q \<in> set (remoteReleases w). major parsed \<le> major q)"
      by (fastforce simp: major_is_released_def Some list_ex_iff remoteReleases_iff
          split: option.splits)
    also have "\<dots> \<longleftrightarrow> major parsed \<le> major newest"
      using a b by (meson order_trans)
    finally show ?thesis using newest Some by (simp add: isReleasedMajor_def)
  qed
qed

text \<open>
  C3 (as amended). On a call whose branch is not in the cache, \<open>getTemplate\<close> starts
  exactly one acquisition. It goes through \<open>prepareTemplate\<close> (the network path)
  exactly when the version is present, parses, and its major is at most the major of
  some remote release of the catalog that parses, that is, at most the major of the
  newest one. In every other case it reads the static directory directly: for an
  absent version, an unparseable version, a major above every remote release, and a
  catalog without a parseable remote release.
\<close>

theorem getTemplate_acquisition_strategy:
  assumes "templateCache s (branchOf ver) = None"
  shows "acquisitions (snd (getTemplate w ver s))
           = acquisitions s @ [(branchOf ver, if major_is_released w ver then Network else Static)]
       \<and> settled (fst (getTemplate w ver s))
           = (if major_is_released w ver then readFiddle w (prepareTemplate w (branchOf ver))
              else readFiddle w (STATIC_TEMPLATE_DIR w))
       \<and> (ver = None \<longrightarrow> \<not> major_is_released w ver)
       \<and> (major_is_released w ver \<longleftrightarrow>
            (\<exists>parsed newest. semver_parse ver = Some parsed \<and> newestRelease w = Some newest
               \<and> major parsed \<le> major newest))"
proof -
  have newest: "major_is_released w ver \<longleftrightarrow>
            (\<exists>parsed newest. semver_parse ver = Some parsed \<and> newestRelease w = Some newest
               \<and> major parsed \<le> major newest)"
    unfolding isReleasedMajor_iff[symmetric]
    by (simp add: isReleasedMajor_def split: option.splits)
  have absent: "ver = None \<longrightarrow> \<not> major_is_released w ver"
    by (simp add: major_is_released_def semver_parse_def)
  from assms have "acquisitions (snd (getTemplate w ver s))
           = acquisitions s @ [(branchOf ver, if major_is_released w ver then Network else Static)]
       \<and> settled (fst (getTemplate w ver s))
           = (if major_is_released w ver then readFiddle w (prepareTemplate w (branchOf ver))
              else readFiddle w (STATIC_TEMPLATE_DIR w))"
    by (simp add: getTemplate_def Let_def isReleasedMajor_iff)
  with absent newest show ?thesis by blast
qed

lemma released_12_0_0: "major_is_released example_world (Some ''12.0.0'')"
  by code_simp

lemma not_released_999_0_0: "\<not> major_is_released example_world (Some ''999.0.0'')"
  by code_simp

lemma branch_12_0_0: "branchOf (Some ''12.0.0'') = ''12-x-y''"
  by code_simp


lemma branch_999_0_0: "branchOf (Some ''999.0.0'') = ''999-x-y''"
  by code_simp


theorem getTemplate_acquisition_strategy_witness:
  "acquisitions (snd (getTemplate example_world (Some ''12.0.0'') initial_cache))
     = [(''12-x-y'', Network)]
   \<and> acquisitions (snd (getTemplate example_world (Some ''999.0.0'') initial_cache))
     = [(''999-x-y'', Static)]"
  using getTemplate_acquisition_strategy[of initial_cache "Some ''12.0.0''" example_world]
    getTemplate_acquisition_strategy[of initial_cache "Some ''999.0.0''" example_world]
  by (simp add: released_12_0_0 not_released_999_0_0 branch_12_0_0 branch_999_0_0
      initial_cache_def)

text \<open>
  C3 (as stated) fails for an absent version: with remote releases in the catalog
  (the newest is 12.0.0) and an empty cache, \<open>getTemplate()\<close> starts the static
  acquisition, not the network one.
\<close>

theorem getTemplate_absent_version_counterexample:
  "acquisitions (snd (getTemplate example_world None initial_cache)) = [(''master'', Static)]
   \<and> settled (fst (getTemplate example_world None initial_cache))
       = readFiddle example_world (STATIC_TEMPLATE_DIR example_world)
   \<and> newestRelease example_world
       = Some \<lparr>major = 12, minor = 0, patch = 0, prerelease = []\<rparr>"
  by code_simp

lemma getTemplate_cached:
  "templateCache s (branchOf ver) = Some p \<Longrightarrow> getTemplate w ver s = (p, s)"
  by (simp add: getTemplate_def)

lemma getTemplate_uncached:
  assumes "templateCache s (branchOf ver) = None"
  shows "templateCache (snd (getTemplate w ver s))
           = (templateCache s)(branchOf ver \<mapsto> fst (getTemplate w ver s))"
    and "map fst (acquisitions (snd (getTemplate w ver s)))
           = map fst (acquisitions s) @ [branchOf ver]"
  using assms by (simp_all add: getTemplate_def Let_def)






lemma getTemplates_Cons_fst:
  "fst (getTemplates ((w, ver) # calls) s)
     = fst (getTemplate w ver s) # fst (getTemplates calls (snd (getTemplate w ver s)))"
  by (simp add: case_prod_beta)









lemma try_download_fails_iff:
  "try_download w branch (download_folder w branch) \<noteq> None \<longleftrightarrow> acquisition_fails w branch"
  by (auto simp: try_download_def acquisition_fails_def Let_def split: option.splits sum.splits)

lemma prepareTemplate_folder:
  "prepareTemplate w branch
     = (if acquisition_fails w branch then STATIC_TEMPLATE_DIR w else download_folder w branch)"
  using try_download_fails_iff[of w branch]
  by (auto simp: prepareTemplate_def Let_def download_folder_def split: option.splits)

lemma getTemplate_settles_uncached:
  assumes "templateCache s (branchOf ver) = None"
  shows "settled (fst (getTemplate w ver s))
           = readFiddle w (if isReleasedMajor w ver \<and> \<not> acquisition_fails w (branchOf ver)
                           then download_folder w (branchOf ver) else STATIC_TEMPLATE_DIR w)"
  using assms by (simp add: getTemplate_def Let_def prepareTemplate_folder)

lemma getTemplates_settle:
  assumes "\<forall>b p. templateCache s b = Some p \<longrightarrow>
             (\<exists>(w, ver) \<in> C. settled p
                = readFiddle w (if isReleasedMajor w ver \<and> \<not> acquisition_fails w (branchOf ver)
                                then download_folder w (branchOf ver) else STATIC_TEMPLATE_DIR w))"
      and "set calls \<subseteq> C"
  shows "\<forall>p \<in> set (fst (getTemplates calls s)).
           \<exists>(w, ver) \<in> C. settled p
                = readFiddle w (if isReleasedMajor w ver \<and> \<not> acquisition_fails w (branchOf ver)
                                then download_folder w (branchOf ver) else STATIC_TEMPLATE_DIR w)"
  using assms
proof (induction calls arbitrary: s)
  case Nil
  then show ?case by simp
next
  case (Cons c calls)
  let ?Q = "\<lambda>p. \<exists>(w, ver) \<in> C. settled p
                = readFiddle w (if isReleasedMajor w ver \<and> \<not> acquisition_fails w (branchOf ver)
                                then download_folder w (branchOf ver) else STATIC_TEMPLATE_DIR w)"
  obtain w ver where c: "c = (w, ver)" by (cases c)
  from Cons.prems(2) have inC: "(w, ver) \<in> C" and rest: "set calls \<subseteq> C" by (auto simp: c)
  let ?p = "fst (getTemplate w ver s)" and ?s1 = "snd (getTemplate w ver s)"
  have first: "?Q ?p"
  proof (cases "templateCache s (branchOf ver)")
    case None
    from getTemplate_settles_uncached[OF None, of w] inC show ?thesis by blast
  next
    case (Some p)
    then have "?p = p" by (simp add: getTemplate_cached)
    with Some Cons.prems(1) show ?thesis by blast
  qed
  have inv: "\<forall>b p. templateCache ?s1 b = Some p \<longrightarrow> ?Q p"
  proof (cases "templateCache s (branchOf ver)")
    case None
    have "templateCache ?s1 = (templateCache s)(branchOf ver \<mapsto> ?p)"
      by (rule getTemplate_uncached(1)[OF None])
    with first Cons.prems(1) show ?thesis by (auto split: if_splits)
  next
    case (Some p)
    then have "?s1 = s" by (simp add: getTemplate_cached)
    with Cons.prems(1) show ?thesis by simp
  qed
  from Cons.IH[OF inv rest] first show ?case
    unfolding c getTemplates_Cons_fst by simp
qed

text \<open>
  C2 (as amended). \<open>getTemplate\<close> returns a promise for every version argument and
  throws nothing itself. Every failure during network acquisition is caught inside
  \<open>prepareTemplate\<close>, which then returns the static directory, and otherwise the
  download folder. On a call that misses the cache the returned promise settles
  exactly as \<open>readFiddle\<close> of the chosen directory does: the download folder when the
  major is a released one and no acquisition step fails, the static directory in every
  other case. On a hit the cached promise is returned. So over any run of calls from
  the empty cache each returned promise settles as a \<open>readFiddle\<close> of one of these
  directories in the world of one of the calls; it resolves whenever those reads
  resolve, and it rejects only when such a read rejects (the two \<open>readFiddle\<close> calls
  stand outside the \<open>try\<close> block).
\<close>

theorem getTemplate_degrades_to_static:
  "(templateCache s (branchOf ver) = None \<longrightarrow>
      settled (fst (getTemplate w ver s))
        = readFiddle w (if isReleasedMajor w ver \<and> \<not> acquisition_fails w (branchOf ver)
                        then download_folder w (branchOf ver) else STATIC_TEMPLATE_DIR w))
   \<and> (\<forall>p. templateCache s (branchOf ver) = Some p \<longrightarrow> getTemplate w ver s = (p, s))
   \<and> prepareTemplate w branch
       = (if acquisition_fails w branch then STATIC_TEMPLATE_DIR w else download_folder w branch)
   \<and> (\<forall>p \<in> set (fst (getTemplates calls initial_cache)).
         \<exists>(w', ver') \<in> set calls.
           settled p
             = readFiddle w' (if isReleasedMajor w' ver' \<and> \<not> acquisition_fails w' (branchOf ver')
                              then download_folder w' (branchOf ver')
                              else STATIC_TEMPLATE_DIR w'))
   \<and> ((\<forall>(w', ver') \<in> set calls. \<forall>folder. \<exists>values. readFiddle w' folder = Inr values) \<longrightarrow>
        (\<forall>p \<in> set (fst (getTemplates calls initial_cache)). \<exists>values. settled p = Inr values))"
proof -
  have run: "\<forall>p \<in> set (fst (getTemplates calls initial_cache)).
         \<exists>(w', ver') \<in> set calls.
           settled p
             = readFiddle w' (if isReleasedMajor w' ver' \<and> \<not> acquisition_fails w' (branchOf ver')
                              then download_folder w' (branchOf ver')
                              else STATIC_TEMPLATE_DIR w')"
    by (rule getTemplates_settle) (simp_all add: initial_cache_def)
  have resolves: "(\<forall>(w', ver') \<in> set calls. \<forall>folder. \<exists>values. readFiddle w' folder = Inr values) \<longrightarrow>
        (\<forall>p \<in> set (fst (getTemplates calls initial_cache)). \<exists>values. settled p = Inr values)"
  proof (intro impI ballI)
    fix p
    assume r: "\<forall>(w', ver') \<in> set calls. \<forall>folder. \<exists>values. readFiddle w' folder = Inr values"
      and p: "p \<in> set (fst (getTemplates calls initial_cache))"
    from run p obtain w' ver' where in_calls: "(w', ver') \<in> set calls"
      and sp: "settled p
             = readFiddle w' (if isReleasedMajor w' ver' \<and> \<not> acquisition_fails w' (branchOf ver')
                              then download_folder w' (branchOf ver')
                              else STATIC_TEMPLATE_DIR w')" by blast
    from r in_calls have "\<forall>folder. \<exists>values. readFiddle w' folder = Inr values" by blast
    then show "\<exists>values. settled p = Inr values" unfolding sp by blast
  qed
  from getTemplate_settles_uncached getTemplate_cached prepareTemplate_folder run resolves
  show ?thesis by blast
qed

lemma offline_fails: "acquisition_fails offline_world ''12-x-y''"
  by (simp add: acquisition_fails_def offline_world_def example_world_def)

lemma offline_released: "isReleasedMajor offline_world (Some ''12.0.0'')"
  by code_simp

theorem getTemplate_degrades_to_static_witness:
  "isReleasedMajor offline_world (Some ''12.0.0'')
   \<and> settled (fst (getTemplate offline_world (Some ''12.0.0'') initial_cache))
     = readFiddle offline_world (STATIC_TEMPLATE_DIR offline_world)
   \<and> prepareTemplate offline_world ''12-x-y'' = STATIC_TEMPLATE_DIR offline_world"
  using getTemplate_degrades_to_static[of initial_cache "Some ''12.0.0''" offline_world
          "''12-x-y''" "[]"]
  by (simp add: offline_fails offline_released branch_12_0_0 initial_cache_def)

text \<open>
  C2 (as stated) fails when a read fails. In the first world every step of the
  download succeeds and the unpacked folder cannot be read: the promise rejects, with
  no fall back to the static directory, which is readable. In the second world the
  static directory cannot be read and \<open>getTemplate()\<close> rejects.
\<close>

theorem getTemplate_rejects_counterexample:
  "\<not> acquisition_fails unpacked_unreadable_world ''12-x-y''
   \<and> settled (fst (getTemplate unpacked_unreadable_world (Some ''12.0.0'') initial_cache))
       = Inl (Error ''ENOENT'')
   \<and> settled (fst (getTemplate unreadable_world None initial_cache))
       = Inl (Error ''unreadable'')"
  by code_simp


section \<open>Properties of the command line\<close>

lemma run_listener_RunDone_exit:
  "exitCode st = None \<or> exitCode st = Some (if r = SUCCESS then 0 else 1) \<Longrightarrow>
   exitCode (run_listener h f (RunDoneMsg r) st) = None
   \<or> exitCode (run_listener h f (RunDoneMsg r) st) = Some (if r = SUCCESS then 0 else 1)"
  by (cases f) (auto simp: run_listener_def app_exit_def console_log_def)

lemma foldl_RunDone_exit:
  "exitCode st = None \<or> exitCode st = Some (if r = SUCCESS then 0 else 1) \<Longrightarrow>
   exitCode (foldl (\<lambda>st reg. run_listener h (handler reg) (RunDoneMsg r) st) st regs) = None
   \<or> exitCode (foldl (\<lambda>st reg. run_listener h (handler reg) (RunDoneMsg r) st) st regs)
       = Some (if r = SUCCESS then 0 else 1)"
proof (induction regs arbitrary: st)
  case Nil
  then show ?case by simp
next
  case (Cons reg regs)
  show ?case
    unfolding foldl_Cons
    by (rule Cons.IH) (rule run_listener_RunDone_exit[OF Cons.prems])
qed

lemma test_listeners:
  "listeners (test opts s) = listeners s @
     [\<lparr>channel = OUTPUT_ENTRY, once = False, handler = OnOutputEntry\<rparr>,
      \<lparr>channel = RUN_DONE, once = True, handler = RunDone\<rparr>]"
  by (simp add: test_def send_def once_listener_def on_listener_def optVersion_def
      optFiddle_def console_log_def split: option.splits)

lemma test_exitCode: "exitCode (test opts s) = exitCode s"
  by (simp add: test_def send_def once_listener_def on_listener_def optVersion_def
      optFiddle_def console_log_def split: option.splits)

text \<open>
  C9. In a process that has not exited, after the \<open>test\<close> command the arrival of the
  terminal RunResult on \<open>RUN_DONE\<close> ends the process with code 0 when the result is
  \<open>SUCCESS\<close> and with code 1 for every other result, whatever the options and whatever
  listeners were registered before.
\<close>

theorem test_exit_code:
  assumes "exitCode s = None"
  shows "exitCode (deliver h (RunDoneMsg r) (test opts s)) = Some (if r = SUCCESS then 0 else 1)"
proof -
  let ?f = "\<lambda>st reg. run_listener h (handler reg) (RunDoneMsg r) st"
  let ?kept = "filter (\<lambda>reg. \<not> (channel reg = RUN_DONE \<and> once reg)) (listeners (test opts s))"
  let ?s0 = "(test opts s)\<lparr>listeners := ?kept\<rparr>"
  let ?before = "filter (\<lambda>reg. channel reg = RUN_DONE) (listeners s)"
  let ?mid = "foldl ?f ?s0 ?before"
  have called: "filter (\<lambda>reg. channel reg = RUN_DONE) (listeners (test opts s))
      = ?before @ [\<lparr>channel = RUN_DONE, once = True, handler = RunDone\<rparr>]"
    by (simp add: test_listeners)
  have d: "deliver h (RunDoneMsg r) (test opts s)
      = run_listener h RunDone (RunDoneMsg r) ?mid"
    using assms by (simp add: deliver_def channel_of_def Let_def test_exitCode called)
  have "exitCode ?mid = None \<or> exitCode ?mid = Some (if r = SUCCESS then 0 else 1)"
    by (rule foldl_RunDone_exit) (simp add: test_exitCode assms)
  then show ?thesis unfolding d
    by (auto simp: run_listener_def app_exit_def console_log_def)
qed

theorem test_exit_code_witness:
  "exitCode (deliver example_host (RunDoneMsg SUCCESS) (test no_options initial_main)) = Some 0
   \<and> exitCode (deliver example_host (RunDoneMsg FAILURE) (test no_options initial_main)) = Some 1
   \<and> exitCode (deliver example_host (RunDoneMsg (OtherResult ''invalid''))
                 (test no_options initial_main)) = Some 1"
  using test_exit_code[of initial_main example_host SUCCESS no_options]
    test_exit_code[of initial_main example_host FAILURE no_options]
    test_exit_code[of initial_main example_host "OtherResult ''invalid''" no_options]
  by (simp add: initial_main_def)

text \<open>
  C7 (as amended). When the argument of \<open>open\<close> is an existing local path, the command
  sends one open-fiddle request with that path and registers a one-shot listener for
  command-done. When command-done arrives, the listener prints whether the command
  succeeded or failed and is removed; the process is not ended (\<open>logWhenDone\<close> is
  called without \<open>exitWhenDone\<close>, whose default is \<open>false\<close>).
\<close>

theorem open_local_path_logs_and_stays:
  assumes "existsSync h src"
  shows "sent (open_cmd h src initial_main) = [(FS_OPEN_FIDDLE, [Str src])]
    \<and> listeners (open_cmd h src initial_main)
        = [\<lparr>channel = COMMAND_DONE, once = True,
            handler = LogWhenDone (''open fiddle '' @ [CHR 0x22] @ src @ [CHR 0x22]) False\<rparr>]
    \<and> exitCode (open_cmd h src initial_main) = None
    \<and> exitCode (deliver h (CommandDoneMsg success) (open_cmd h src initial_main)) = None
    \<and> console (deliver h (CommandDoneMsg success) (open_cmd h src initial_main))
        = [Log (''command '' @ (if success then ''succeeded'' else ''failed'') @ '': ''
                @ ''open fiddle '' @ [CHR 0x22] @ src @ [CHR 0x22])]
    \<and> listeners (deliver h (CommandDoneMsg success) (open_cmd h src initial_main)) = []"
  using assms
  by (simp add: open_cmd_def logWhenDone_def send_def once_listener_def initial_main_def
      deliver_def channel_of_def run_listener_def console_log_def Let_def)

theorem open_local_path_logs_and_stays_witness:
  "sent (open_cmd example_host ''/path/to/fiddle'' initial_main)
     = [(FS_OPEN_FIDDLE, [Str ''/path/to/fiddle''])]
   \<and> console (deliver example_host (CommandDoneMsg False)
                (open_cmd example_host ''/path/to/fiddle'' initial_main))
     = [Log (''command failed: open fiddle '' @ [CHR 0x22] @ ''/path/to/fiddle'' @ [CHR 0x22])]"
  using open_local_path_logs_and_stays[of example_host "''/path/to/fiddle''" False]
  by (simp add: example_host_def)

text \<open>
  C7 (as stated) fails: for the existing path \<open>/path/to/fiddle\<close> the process has no
  exit code after command-done, neither 0 after a success nor 1 after a failure.
\<close>

theorem open_local_path_exit_counterexample:
  "existsSync example_host ''/path/to/fiddle''
   \<and> exitCode (deliver example_host (CommandDoneMsg True)
                 (open_cmd example_host ''/path/to/fiddle'' initial_main)) = None
   \<and> exitCode (deliver example_host (CommandDoneMsg False)
                 (open_cmd example_host ''/path/to/fiddle'' initial_main)) = None"
  by (simp add: example_host_def open_cmd_def logWhenDone_def send_def once_listener_def
      initial_main_def deliver_def channel_of_def run_listener_def console_log_def Let_def)

text \<open>
  The three inputs the spec lists for \<open>open\<close>: the gist URL with a trailing slash and
  the bare id send a load-gist request with the 32-digit id, and \<open>not-a-gist-or-path\<close>
  changes nothing.
\<close>

lemma open_gist_examples:
  "sent (open_cmd example_host ''https://gist.github.com/ckerr/af3e1a018f5dcce4a2ff40004ef5bab5/''
           initial_main)
     = [(LOAD_GIST_REQUEST,
         [Gist \<lparr>id_gist = ''af3e1a018f5dcce4a2ff40004ef5bab5'', confirmed = True\<rparr>])]
   \<and> sent (open_cmd example_host ''af3e1a018f5dcce4a2ff40004ef5bab5'' initial_main)
     = [(LOAD_GIST_REQUEST,
         [Gist \<lparr>id_gist = ''af3e1a018f5dcce4a2ff40004ef5bab5'', confirmed = True\<rparr>])]
   \<and> open_cmd example_host ''not-a-gist-or-path'' initial_main = initial_main"
  by code_simp

text \<open>
  C5, the code at the failing input. The argument below is not an existing path and is
  not a 32-character hexadecimal string (it has 34 characters), yet \<open>open\<close> sends a
  load-gist request, and the request carries all 34 characters as the id: the pattern
  of line 113 has no anchors.
\<close>

theorem open_accepts_longer_text:
  "sent (open_cmd example_host ''af3e1a018f5dcce4a2ff40004ef5bab5ff'' initial_main)
     = [(LOAD_GIST_REQUEST,
         [Gist \<lparr>id_gist = ''af3e1a018f5dcce4a2ff40004ef5bab5ff'', confirmed = True\<rparr>])]
   \<and> length ''af3e1a018f5dcce4a2ff40004ef5bab5ff'' = 34"
  by code_simp













text \<open>
  Two versions whose numeric prerelease identifiers round to the same double compare
  equal, so \<open>bisect\<close> sends them in the order given and prints no warning; and when an
  argument is no version, the error comes with the state the option helpers left.
\<close>

lemma bisect_equal_doubles_example:
  "semver_compare ''1.0.0-9007199254740993'' ''1.0.0-9007199254740992'' = Inr 0
   \<and> (case bisect example_host ''1.0.0-9007199254740993'' ''1.0.0-9007199254740992''
              no_options initial_main of
        Inl failure \<Rightarrow> False
      | Inr s' \<Rightarrow>
          last (sent s') = (FIDDLE_BISECT,
                            [Str ''1.0.0-9007199254740993'', Str ''1.0.0-9007199254740992''])
          \<and> console s' = [Log ''Loading undefined''])"
  by code_simp

lemma bisect_invalid_version_example:
  "bisect example_host ''banana'' ''10.0.0'' no_options initial_main
     = Inl (TypeError ''Invalid Version: banana'',
            \<lparr>sent = [(FS_OPEN_FIDDLE, [Undefined])], listeners = [],
             console = [Log ''Loading undefined''], exitCode = None\<rparr>)"
  by code_simp

section \<open>Properties of the bisect controller\<close>

lemma midpoint_between: "Suc good < bad \<Longrightarrow> good < midpoint good bad \<and> midpoint good bad < bad"
  by (simp add: midpoint_def) arith

lemma bisect_step_narrows:
  assumes "Suc good < bad"
  shows "bisect_step run vs (good, bad)
           = (if run (vs ! midpoint good bad) then (midpoint good bad, bad)
              else (good, midpoint good bad))"
    and "fst (bisect_step run vs (good, bad)) < snd (bisect_step run vs (good, bad))"
    and "good \<le> fst (bisect_step run vs (good, bad))"
    and "snd (bisect_step run vs (good, bad)) \<le> bad"
    and "snd (bisect_step run vs (good, bad)) - fst (bisect_step run vs (good, bad)) < bad - good"
  using midpoint_between[OF assms] by (auto simp: bisect_step_def)

lemma half_width:
  assumes "Suc good < bad" and "bad - good \<le> 2 ^ Suc n"
  shows "snd (bisect_step run vs (good, bad)) - fst (bisect_step run vs (good, bad)) \<le> 2 ^ n"
  using assms by (auto simp: bisect_step_def midpoint_def)

lemma bisect_loop_result:
  assumes "fst bounds < snd bounds" and "snd bounds - fst bounds \<le> 2 ^ n"
  shows "snd (fst (bisect_loop run vs bounds steps)) = Suc (fst (fst (bisect_loop run vs bounds steps)))
       \<and> fst bounds \<le> fst (fst (bisect_loop run vs bounds steps))
       \<and> snd (fst (bisect_loop run vs bounds steps)) \<le> snd bounds
       \<and> snd (bisect_loop run vs bounds steps) \<le> steps + n"
  using assms
proof (induction run vs bounds steps arbitrary: n rule: bisect_loop.induct)
  case (1 run vs bounds steps)
  obtain good bad where b: "bounds = (good, bad)" by (cases bounds)
  show ?case
  proof (cases "snd bounds \<le> Suc (fst bounds)")
    case True
    then have stop: "bisect_loop run vs bounds steps = (bounds, steps)"
      by (subst bisect_loop.simps) simp
    from True "1.prems" show ?thesis unfolding stop by simp
  next
    case False
    then have wide: "Suc good < bad" by (simp add: b)
    then have "2 \<le> bad - good" by simp
    with "1.prems"(2) have "n \<noteq> 0" by (auto simp: b intro!: Nat.gr0I)
    then obtain m where n: "n = Suc m" by (cases n) auto
    let ?next = "bisect_step run vs bounds"
    have lt: "fst ?next < snd ?next" unfolding b by (rule bisect_step_narrows(2)[OF wide])
    have w: "snd ?next - fst ?next \<le> 2 ^ m"
      unfolding b by (rule half_width[OF wide]) (use "1.prems"(2) in \<open>simp add: b n\<close>)
    note IH = "1.IH"[OF False lt w]
    have inside: "good \<le> fst ?next" "snd ?next \<le> bad"
      unfolding b using bisect_step_narrows(3,4)[OF wide] by auto
    have unfold: "bisect_loop run vs bounds steps = bisect_loop run vs ?next (Suc steps)"
      using False by (subst bisect_loop.simps) simp
    from IH inside show ?thesis unfolding unfold by (simp add: b n)
  qed
qed

lemma le_two_power_ceiling_log:
  assumes "0 < N"
  shows "N \<le> 2 ^ nat \<lceil>log 2 (real N)\<rceil>"
proof -
  have nonneg: "0 \<le> log 2 (real N)" using assms by simp
  then have c: "0 \<le> \<lceil>log 2 (real N)\<rceil>" by linarith
  have "real N \<le> 2 powr (real_of_int \<lceil>log 2 (real N)\<rceil>)"
    using assms by (simp add: le_powr_iff)
  also have "\<dots> = 2 powr (real (nat \<lceil>log 2 (real N)\<rceil>))" using c by simp
  also have "\<dots> = 2 ^ nat \<lceil>log 2 (real N)\<rceil>" by (simp add: powr_realpow)
  finally have "real N \<le> real ((2::nat) ^ nat \<lceil>log 2 (real N)\<rceil>)" by simp
  then show ?thesis by linarith
qed

text \<open>
  C6. For a list of at least two versions, bisecting the whole list ends (the loop is a
  total function) and returns two versions that are adjacent in the list, after at most
  \<open>ceil(log2(N))\<close> runs, where \<open>N\<close> is the length of the list; equivalently, after at
  most \<open>k\<close> runs whenever \<open>N \<le> 2 ^ k\<close>. Every iteration on a range that is not yet a
  pair of neighbours replaces one bound by the index-based midpoint, the \<open>good\<close> bound
  when the run succeeds and the \<open>bad\<close> bound otherwise; the midpoint lies strictly
  between the bounds, so the range narrows strictly.
\<close>

theorem BisectController_terminates_adjacent:
  assumes "2 \<le> length vs"
  shows "(\<exists>i. Suc i < length vs
            \<and> lastGood (BisectController_bisect run vs) = Some (vs ! i)
            \<and> firstBad (BisectController_bisect run vs) = Some (vs ! Suc i))
       \<and> runSteps (BisectController_bisect run vs) \<le> nat \<lceil>log 2 (real (length vs))\<rceil>
       \<and> (\<forall>k. length vs \<le> 2 ^ k \<longrightarrow> runSteps (BisectController_bisect run vs) \<le> k)
       \<and> (\<forall>good bad. Suc good < bad \<longrightarrow>
             bisect_step run vs (good, bad)
               = (if run (vs ! midpoint good bad) then (midpoint good bad, bad)
                  else (good, midpoint good bad))
           \<and> good < midpoint good bad \<and> midpoint good bad < bad
           \<and> snd (bisect_step run vs (good, bad)) - fst (bisect_step run vs (good, bad))
               < bad - good)"
proof -
  let ?r = "bisect_loop run vs (0, length vs - 1) 0"
  have ne: "vs \<noteq> []" using assms by auto
  have lt: "fst (0::nat, length vs - 1) < snd (0::nat, length vs - 1)" using assms by simp
  have bound: "\<And>k. length vs \<le> 2 ^ k \<Longrightarrow>
      snd (fst ?r) = Suc (fst (fst ?r)) \<and> snd (fst ?r) \<le> length vs - 1 \<and> snd ?r \<le> k"
  proof -
    fix k assume "length vs \<le> 2 ^ k"
    then have "snd (0::nat, length vs - 1) - fst (0::nat, length vs - 1) \<le> 2 ^ k" by simp
    from bisect_loop_result[OF lt this, of run vs 0]
    show "snd (fst ?r) = Suc (fst (fst ?r)) \<and> snd (fst ?r) \<le> length vs - 1 \<and> snd ?r \<le> k"
      by simp
  qed
  have out: "BisectController_bisect run vs
      = \<lparr>lastGood = Some (vs ! fst (fst ?r)), firstBad = Some (vs ! snd (fst ?r)),
         runSteps = snd ?r\<rparr>"
    using ne by (simp add: BisectController_bisect_def case_prod_beta)
  have big: "length vs \<le> 2 ^ nat \<lceil>log 2 (real (length vs))\<rceil>"
    by (rule le_two_power_ceiling_log) (use ne in simp)
  from bound[OF big] have adj: "snd (fst ?r) = Suc (fst (fst ?r))"
    and inside: "snd (fst ?r) \<le> length vs - 1"
    and steps: "snd ?r \<le> nat \<lceil>log 2 (real (length vs))\<rceil>" by auto
  have 1: "\<exists>i. Suc i < length vs
            \<and> lastGood (BisectController_bisect run vs) = Some (vs ! i)
            \<and> firstBad (BisectController_bisect run vs) = Some (vs ! Suc i)"
  proof (intro exI conjI)
    show "Suc (fst (fst ?r)) < length vs" using adj inside assms by simp
    show "lastGood (BisectController_bisect run vs) = Some (vs ! fst (fst ?r))" by (simp add: out)
    show "firstBad (BisectController_bisect run vs) = Some (vs ! Suc (fst (fst ?r)))"
      using adj by (simp add: out)
  qed
  have 2: "runSteps (BisectController_bisect run vs) \<le> nat \<lceil>log 2 (real (length vs))\<rceil>"
    using steps by (simp add: out)
  have 3: "\<forall>k. length vs \<le> 2 ^ k \<longrightarrow> runSteps (BisectController_bisect run vs) \<le> k"
    using bound by (simp add: out)
  have 4: "\<forall>good bad. Suc good < bad \<longrightarrow>
             bisect_step run vs (good, bad)
               = (if run (vs ! midpoint good bad) then (midpoint good bad, bad)
                  else (good, midpoint good bad))
           \<and> good < midpoint good bad \<and> midpoint good bad < bad
           \<and> snd (bisect_step run vs (good, bad)) - fst (bisect_step run vs (good, bad))
               < bad - good"
    using bisect_step_narrows(1,5) midpoint_between by blast
  from 1 2 3 4 show ?thesis by blast
qed

lemma example_bisect_outcome: "BisectController_bisect example_run example_versions
   = \<lparr>lastGood = Some ''10.1.0'', firstBad = Some ''11.0.0'', runSteps = 2\<rparr>"
  by code_simp

theorem BisectController_terminates_adjacent_witness:
  "runSteps (BisectController_bisect example_run example_versions) \<le> 3
   \<and> lastGood (BisectController_bisect example_run example_versions) = Some ''10.1.0''
   \<and> firstBad (BisectController_bisect example_run example_versions) = Some ''11.0.0''"
proof -
  have l: "2 \<le> length example_versions" by (simp add: example_versions_def)
  note inst = BisectController_terminates_adjacent[OF l, of example_run]
  from inst have "\<forall>k. length example_versions \<le> 2 ^ k \<longrightarrow>
     runSteps (BisectController_bisect example_run example_versions) \<le> k"
    by blast
  then have "length example_versions \<le> 2 ^ 3 \<longrightarrow>
     runSteps (BisectController_bisect example_run example_versions) \<le> 3"
    by (rule spec)
  then have "runSteps (BisectController_bisect example_run example_versions) \<le> 3"
    by (simp add: example_versions_def)
  then show ?thesis by (simp add: example_bisect_outcome)
qed

end
